theory Spec2Isabelle
  imports Main "HOL-Library.Word"
begin

section \<open>Data model\<close>

text \<open>
  Event ids are \<^verbatim>\<open>uint32_t\<close> in the source. A \<^verbatim>\<open>ResourceId\<close> is an opaque
  comparable identifier; the default-constructed one means "no resource".
\<close>

type_synonym eid = "32 word"

datatype ResourceId = ResourceId (rawId: nat)

abbreviation ResourceId_null :: ResourceId where
  "ResourceId_null \<equiv> ResourceId 0"

text \<open>
  One raw observation of the replay backend. The usage kind is an enumeration declared
  outside this file; it is only compared for equality and printed, so it stays a type
  parameter.
\<close>

record 'u EventUsage =
  eventID :: eid
  usage :: 'u

record 'u UsageRange =
  startEID :: eid
  endEID :: eid
  rangeUsage :: 'u

section \<open>The usage coalescer\<close>

text \<open>
  Modelled from the spec: \<^verbatim>\<open>CombineUsageEvents\<close> is called by
  \<^verbatim>\<open>ResourceInspector::Inspect\<close> but defined in another file. The spec's algorithm:
  walk the input once with an open range initialised from the first event; an event of the
  open range's kind extends the range's end to that event's id, any other event emits the
  open range and opens a new one at that event; the last open range is emitted at the end.
  Empty input emits nothing.
\<close>

fun coalesce_from :: "eid \<Rightarrow> eid \<Rightarrow> 'u \<Rightarrow> 'u EventUsage list \<Rightarrow> 'u UsageRange list" where
  "coalesce_from st en k [] = [\<lparr>startEID = st, endEID = en, rangeUsage = k\<rparr>]"
| "coalesce_from st en k (e # es) =
     (if usage e = k then coalesce_from st (eventID e) k es
      else \<lparr>startEID = st, endEID = en, rangeUsage = k\<rparr>
             # coalesce_from (eventID e) (eventID e) (usage e) es)"

fun coalesce :: "'u EventUsage list \<Rightarrow> 'u UsageRange list" where
  "coalesce [] = []"
| "coalesce (e # es) = coalesce_from (eventID e) (eventID e) (usage e) es"

text \<open>
  Modelled from the spec: the entry point as the source calls it, handing every emitted
  range to the callback in order. The callback mutates the caller's state.
\<close>

definition CombineUsageEvents ::
  "'u EventUsage list \<Rightarrow> (eid \<Rightarrow> eid \<Rightarrow> 'u \<Rightarrow> 's \<Rightarrow> 's) \<Rightarrow> 's \<Rightarrow> 's" where
  "CombineUsageEvents us callback s =
     fold (\<lambda>r. callback (startEID r) (endEID r) (rangeUsage r)) (coalesce us) s"

section \<open>Strings\<close>

text \<open>\<^verbatim>\<open>QString::arg\<close> on an unsigned number prints it in decimal.\<close>

definition digit :: "nat \<Rightarrow> char" where
  "digit d = ''0123456789'' ! d"

fun decimal :: "nat \<Rightarrow> string" where
  "decimal n = (if n < 10 then [digit n] else decimal (n div 10) @ [digit (n mod 10)])"

declare decimal.simps [simp del]

section \<open>Widgets\<close>

text \<open>
  A tree item carries the text of its two columns, the data stored on each column under
  \<^verbatim>\<open>ResourceIdRole\<close>, and its children. A tree widget is its top-level items, the index
  of the selected item if any, and the updates-enabled flag.
\<close>

datatype item_data = NoData | ResourceData ResourceId | EventData eid

datatype RDTreeWidgetItem =
  TreeItem (itemText0: string) (itemText1: string) (itemData0: item_data)
    (itemData1: item_data) (itemChildren: "RDTreeWidgetItem list")

record RDTreeWidget =
  items :: "RDTreeWidgetItem list"
  selectedItem :: "nat option"
  updatesEnabled :: bool

definition clear :: "RDTreeWidget \<Rightarrow> RDTreeWidget" where
  "clear w = w\<lparr>items := [], selectedItem := None\<rparr>"

definition addTopLevelItem :: "RDTreeWidgetItem \<Rightarrow> RDTreeWidget \<Rightarrow> RDTreeWidget" where
  "addTopLevelItem it w = w\<lparr>items := items w @ [it]\<rparr>"

definition setSelectedItem :: "nat \<Rightarrow> RDTreeWidget \<Rightarrow> RDTreeWidget" where
  "setSelectedItem i w = w\<lparr>selectedItem := Some i\<rparr>"

definition setUpdatesEnabled :: "bool \<Rightarrow> RDTreeWidget \<Rightarrow> RDTreeWidget" where
  "setUpdatesEnabled b w = w\<lparr>updatesEnabled := b\<rparr>"

section \<open>The capture context\<close>

record ResourceDescription =
  ID :: ResourceId
  parentResources :: "ResourceId list"
  derivedResources :: "ResourceId list"
  initialisationChunks :: "32 word list"

record 'o SDChunk =
  chunkName :: string
  chunkChildren :: "'o list"

text \<open>
  What \<^verbatim>\<open>ResourceInspector\<close> reads from \<^verbatim>\<open>m_Ctx\<close> and from the replay controller.
  \<^verbatim>\<open>GetTexture\<close> and \<^verbatim>\<open>GetBuffer\<close> return pointers that the source only tests for
  null, so they are predicates here. \<^verbatim>\<open>usageName\<close> is
  \<^verbatim>\<open>ToQStr(use, m_Ctx.APIProps().pipelineType)\<close> and \<^verbatim>\<open>addStructuredObjects\<close> builds
  the child items of a chunk; both are defined in other files and taken as parameters.
\<close>

record ('u, 'o) CaptureContext =
  GetResources :: "ResourceDescription list"
  GetResourceName :: "ResourceId \<Rightarrow> string"
  HasResourceCustomName :: "ResourceId \<Rightarrow> bool"
  GetTexture :: "ResourceId \<Rightarrow> bool"
  GetBuffer :: "ResourceId \<Rightarrow> bool"
  chunks :: "'o SDChunk list"
  GetUsage :: "ResourceId \<Rightarrow> 'u EventUsage list"
  usageName :: "'u \<Rightarrow> string"
  addStructuredObjects :: "'o list \<Rightarrow> RDTreeWidgetItem list"

text \<open>
  Modelled from the spec: \<^verbatim>\<open>GetResource(id)\<close> is declared outside this file; it yields
  the description of \<^verbatim>\<open>id\<close> in the catalog, or nothing (the null pointer of the source).
\<close>

definition GetResource :: "('u, 'o) CaptureContext \<Rightarrow> ResourceId \<Rightarrow> ResourceDescription option" where
  "GetResource ctx rid = find (\<lambda>d. ID d = rid) (GetResources ctx)"

section \<open>The inspector\<close>

text \<open>
  The state of a \<^verbatim>\<open>ResourceInspector\<close>: the member \<^verbatim>\<open>m_Resource\<close>, the widgets
  that \<^verbatim>\<open>Inspect\<close>, \<^verbatim>\<open>OnLogfileLoaded\<close>, \<^verbatim>\<open>OnLogfileClosed\<close> and the
  constructor touch, and the two queues behind the asynchronous usage query:
  \<^verbatim>\<open>replayQueue\<close> holds the ids handed to \<^verbatim>\<open>Replay().AsyncInvoke\<close> whose
  \<^verbatim>\<open>GetUsage\<close> has not run yet, \<^verbatim>\<open>guiQueue\<close> the callbacks handed to
  \<^verbatim>\<open>GUIInvoke::call\<close> with the id and usage list they captured.

  The resource list (\<^verbatim>\<open>m_ResourceModel\<close> behind \<^verbatim>\<open>m_FilterModel\<close>) stores nothing of
  its own: \<^verbatim>\<open>rowCount\<close> and \<^verbatim>\<open>data\<close> read \<^verbatim>\<open>m_Ctx.GetResources()\<close> on every
  call. Its \<^verbatim>\<open>reset()\<close> and \<^verbatim>\<open>sort(0)\<close> therefore leave this state as it is.
\<close>

record 'u ResourceInspector =
  m_Resource :: ResourceId
  resourceName :: string
  resetNameVisible :: bool
  resourceNameEditVisible :: bool
  renameResourceEnabled :: bool
  viewContentsVisible :: bool
  initChunks :: RDTreeWidget
  relatedResources :: RDTreeWidget
  resourceUsage :: RDTreeWidget
  replayQueue :: "ResourceId list"
  guiQueue :: "(ResourceId \<times> 'u EventUsage list) list"

text \<open>An access to \<^verbatim>\<open>file.chunks[i]\<close> past the end of the array is a fault.\<close>

datatype fault = ChunkIndexOutOfBounds nat

definition rdcarray_at :: "'a list \<Rightarrow> nat \<Rightarrow> fault + 'a" where
  "rdcarray_at xs i = (if i < length xs then Inr (xs ! i) else Inl (ChunkIndexOutOfBounds i))"

fun and_then :: "fault + 'a \<Rightarrow> ('a \<Rightarrow> fault + 'b) \<Rightarrow> fault + 'b" where
  "and_then (Inl f) k = Inl f"
| "and_then (Inr a) k = k a"

subsection \<open>The usage callback\<close>

text \<open>
  The callback given to \<^verbatim>\<open>CombineUsageEvents\<close>: one row per range, labelled
  \<^verbatim>\<open>EID n\<close> or \<^verbatim>\<open>EID n-m\<close>, carrying the end event id as data.
\<close>

definition usageItem :: "('u, 'o) CaptureContext \<Rightarrow> eid \<Rightarrow> eid \<Rightarrow> 'u \<Rightarrow> RDTreeWidgetItem" where
  "usageItem ctx startE endE use =
     TreeItem
       (if startE = endE then ''EID '' @ decimal (unat startE)
        else ''EID '' @ decimal (unat startE) @ ''-'' @ decimal (unat endE))
       (usageName ctx use) (EventData endE) NoData []"

definition addUsageRange ::
  "('u, 'o) CaptureContext \<Rightarrow> eid \<Rightarrow> eid \<Rightarrow> 'u \<Rightarrow> 'u ResourceInspector \<Rightarrow> 'u ResourceInspector" where
  "addUsageRange ctx startE endE use s =
     s\<lparr>resourceUsage := addTopLevelItem (usageItem ctx startE endE use) (resourceUsage s)\<rparr>"

text \<open>
  The body of the lambda handed to \<^verbatim>\<open>GUIInvoke::call\<close>. It captures \<^verbatim>\<open>id\<close> but
  never compares it with \<^verbatim>\<open>m_Resource\<close>.
\<close>

definition usage_callback ::
  "('u, 'o) CaptureContext \<Rightarrow> 'u EventUsage list \<Rightarrow> 'u ResourceInspector \<Rightarrow> 'u ResourceInspector" where
  "usage_callback ctx us s = CombineUsageEvents us (addUsageRange ctx) s"

text \<open>
  The two asynchronous steps. \<^verbatim>\<open>replay_run\<close> is the replay thread running one queued
  command: it reads the usage of \<^verbatim>\<open>id\<close> and posts the callback. \<^verbatim>\<open>gui_run\<close> is the UI
  thread running one posted callback. Either does nothing when the job is not queued.
\<close>

definition replay_run ::
  "('u, 'o) CaptureContext \<Rightarrow> ResourceId \<Rightarrow> 'u ResourceInspector \<Rightarrow> 'u ResourceInspector" where
  "replay_run ctx rid s =
     (if rid \<in> set (replayQueue s)
      then s\<lparr>replayQueue := remove1 rid (replayQueue s),
             guiQueue := guiQueue s @ [(rid, GetUsage ctx rid)]\<rparr>
      else s)"

definition gui_run ::
  "('u, 'o) CaptureContext \<Rightarrow> ResourceId \<times> 'u EventUsage list \<Rightarrow> 'u ResourceInspector
     \<Rightarrow> 'u ResourceInspector" where
  "gui_run ctx job s =
     (if job \<in> set (guiQueue s)
      then usage_callback ctx (snd job) (s\<lparr>guiQueue := remove1 job (guiQueue s)\<rparr>)
      else s)"

subsection \<open>Inspect\<close>

definition relatedItem :: "string \<Rightarrow> ('u, 'o) CaptureContext \<Rightarrow> ResourceId \<Rightarrow> RDTreeWidgetItem" where
  "relatedItem kind ctx r =
     TreeItem kind (GetResourceName ctx r) (ResourceData r) (ResourceData r) []"

text \<open>
  One pass of the loop over \<^verbatim>\<open>desc->initialisationChunks\<close>: the root item is named
  after the chunk and filled with its structured children when the index is inside the
  chunk table, and is a placeholder otherwise.
\<close>

definition initChunkRoot :: "('u, 'o) CaptureContext \<Rightarrow> 32 word \<Rightarrow> fault + RDTreeWidgetItem" where
  "initChunkRoot ctx chunk =
     (if unat chunk < length (chunks ctx)
      then and_then (rdcarray_at (chunks ctx) (unat chunk))
             (\<lambda>chunkObj. Inr (TreeItem (chunkName chunkObj) [] NoData NoData
                                 (addStructuredObjects ctx (chunkChildren chunkObj))))
      else Inr (TreeItem [] (''Invalid chunk index '' @ decimal (unat chunk)) NoData NoData []))"

fun addInitChunks ::
  "('u, 'o) CaptureContext \<Rightarrow> 32 word list \<Rightarrow> RDTreeWidget \<Rightarrow> fault + RDTreeWidget" where
  "addInitChunks ctx [] w = Inr w"
| "addInitChunks ctx (chunk # rest) w =
     and_then (initChunkRoot ctx chunk)
       (\<lambda>root. addInitChunks ctx rest
                  (setSelectedItem (length (items w)) (addTopLevelItem root w)))"

text \<open>Lines 164 to 204: everything between the equality guard and the test of \<^verbatim>\<open>desc\<close>.\<close>

definition Inspect_reset ::
  "('u, 'o) CaptureContext \<Rightarrow> ResourceId \<Rightarrow> 'u ResourceInspector \<Rightarrow> 'u ResourceInspector" where
  "Inspect_reset ctx rid s =
     s\<lparr>m_Resource := rid,
       viewContentsVisible := (GetTexture ctx rid \<or> GetBuffer ctx rid),
       resetNameVisible := HasResourceCustomName ctx rid,
       initChunks := clear (setUpdatesEnabled False (initChunks s)),
       relatedResources := clear (relatedResources s),
       resourceUsage := clear (resourceUsage s),
       replayQueue := replayQueue s @ [rid]\<rparr>"

text \<open>Lines 208 to 246: the branch taken when the catalog has a description.\<close>

definition Inspect_found ::
  "('u, 'o) CaptureContext \<Rightarrow> ResourceId \<Rightarrow> ResourceDescription \<Rightarrow> 'u ResourceInspector
     \<Rightarrow> fault + 'u ResourceInspector" where
  "Inspect_found ctx rid desc s =
     and_then (addInitChunks ctx (initialisationChunks desc) (initChunks s))
       (\<lambda>w. Inr (s\<lparr>resourceName := GetResourceName ctx rid,
                    relatedResources :=
                      fold addTopLevelItem
                        (map (relatedItem ''Parent'' ctx) (parentResources desc)
                           @ map (relatedItem ''Derived'' ctx) (derivedResources desc))
                        (relatedResources s),
                    initChunks := w\<rparr>))"

text \<open>Lines 250 and 251: the branch taken when it has none.\<close>

definition Inspect_missing :: "'u ResourceInspector \<Rightarrow> 'u ResourceInspector" where
  "Inspect_missing s =
     s\<lparr>m_Resource := ResourceId_null, resourceName := ''No Resource Selected''\<rparr>"

definition Inspect ::
  "('u, 'o) CaptureContext \<Rightarrow> ResourceId \<Rightarrow> 'u ResourceInspector \<Rightarrow> fault + 'u ResourceInspector" where
  "Inspect ctx rid s =
     (if m_Resource s = rid then Inr s
      else and_then
             (case GetResource ctx rid of
                Some desc \<Rightarrow> Inspect_found ctx rid desc (Inspect_reset ctx rid s)
              | None \<Rightarrow> Inr (Inspect_missing (Inspect_reset ctx rid s)))
             (\<lambda>s'. Inr (s'\<lparr>initChunks := setUpdatesEnabled True (initChunks s')\<rparr>)))"

subsection \<open>The other entry points\<close>

definition OnLogfileLoaded :: "'u ResourceInspector \<Rightarrow> 'u ResourceInspector" where
  "OnLogfileLoaded s = s\<lparr>renameResourceEnabled := True\<rparr>"

definition OnLogfileClosed :: "'u ResourceInspector \<Rightarrow> 'u ResourceInspector" where
  "OnLogfileClosed s =
     s\<lparr>renameResourceEnabled := False,
       resetNameVisible := False,
       resourceName := ''No Resource Selected'',
       viewContentsVisible := False,
       initChunks := clear (initChunks s),
       relatedResources := clear (relatedResources s),
       resourceUsage := clear (resourceUsage s),
       m_Resource := ResourceId_null\<rparr>"

definition OnEventChanged ::
  "('u, 'o) CaptureContext \<Rightarrow> 32 word \<Rightarrow> 'u ResourceInspector \<Rightarrow> fault + 'u ResourceInspector" where
  "OnEventChanged ctx event s = Inspect ctx (m_Resource s) s"

text \<open>
  The constructor: the widgets as set up before its call of \<^verbatim>\<open>Inspect(ResourceId())\<close>,
  with \<^verbatim>\<open>m_Resource\<close> default-constructed, then that call.
\<close>

definition constructed :: "'u ResourceInspector" where
  "constructed =
     \<lparr>m_Resource = ResourceId_null,
      resourceName = ''No Resource Selected'',
      resetNameVisible = False,
      resourceNameEditVisible = False,
      renameResourceEnabled = False,
      viewContentsVisible = False,
      initChunks = \<lparr>items = [], selectedItem = None, updatesEnabled = True\<rparr>,
      relatedResources = \<lparr>items = [], selectedItem = None, updatesEnabled = True\<rparr>,
      resourceUsage = \<lparr>items = [], selectedItem = None, updatesEnabled = True\<rparr>,
      replayQueue = [],
      guiQueue = []\<rparr>"

definition ResourceInspector_new ::
  "('u, 'o) CaptureContext \<Rightarrow> fault + 'u ResourceInspector" where
  "ResourceInspector_new ctx = Inspect ctx ResourceId_null constructed"

section \<open>Expected entries and state predicates\<close>

text \<open>
  The entry the spec asks the initialisation view to show for one chunk index: the resolved
  chunk with its structured contents when the index is inside the chunk table, an explicit
  placeholder marked as an invalid chunk index otherwise.
\<close>

definition invalid_chunk_placeholder :: "32 word \<Rightarrow> RDTreeWidgetItem" where
  "invalid_chunk_placeholder c =
     TreeItem [] (''Invalid chunk index '' @ decimal (unat c)) NoData NoData []"

definition chunk_entry :: "('u, 'o) CaptureContext \<Rightarrow> 32 word \<Rightarrow> RDTreeWidgetItem" where
  "chunk_entry ctx c =
     (case drop (unat c) (chunks ctx) of
        [] \<Rightarrow> invalid_chunk_placeholder c
      | ch # _ \<Rightarrow> TreeItem (chunkName ch) [] NoData NoData
                    (addStructuredObjects ctx (chunkChildren ch)))"

text \<open>The rows the usage callback shows for a usage list.\<close>

definition usage_rows :: "('u, 'o) CaptureContext \<Rightarrow> 'u EventUsage list \<Rightarrow> RDTreeWidgetItem list" where
  "usage_rows ctx us =
     map (\<lambda>r. usageItem ctx (startEID r) (endEID r) (rangeUsage r)) (coalesce us)"

text \<open>
  Events that share an event id share their usage kind.
\<close>

definition same_id_same_kind :: "'u EventUsage list \<Rightarrow> bool" where
  "same_id_same_kind es =
     list_all (\<lambda>e. list_all (\<lambda>e'. eventID e \<noteq> eventID e' \<or> usage e = usage e') es) es"

text \<open>
  The stored current id is null or has a description in the catalog. The constructor
  establishes this, and every entry point keeps it while the catalog stays the same.
\<close>

definition current_known :: "('u, 'o) CaptureContext \<Rightarrow> 'u ResourceInspector \<Rightarrow> bool" where
  "current_known ctx s =
     (m_Resource s = ResourceId_null \<or> GetResource ctx (m_Resource s) \<noteq> None)"

section \<open>A sample capture\<close>

datatype sample_usage = Read | Write

fun sample_usage_name :: "sample_usage \<Rightarrow> string" where
  "sample_usage_name Read = ''Read''"
| "sample_usage_name Write = ''Write''"

definition scenario1 :: "sample_usage EventUsage list" where
  "scenario1 =
     [\<lparr>eventID = 10, usage = Read\<rparr>, \<lparr>eventID = 12, usage = Read\<rparr>,
      \<lparr>eventID = 15, usage = Write\<rparr>, \<lparr>eventID = 20, usage = Write\<rparr>,
      \<lparr>eventID = 21, usage = Read\<rparr>]"

definition sample_usage_of :: "ResourceId \<Rightarrow> sample_usage EventUsage list" where
  "sample_usage_of r =
     (if r = ResourceId 2 then scenario1
      else if r = ResourceId 3 then [\<lparr>eventID = 30, usage = Write\<rparr>]
      else [])"

text \<open>
  Resources 2, 3 and 4 over a chunk table of three entries. Resource 4 names the chunk
  index 7.
  No resource has the id 5 or the null id.
\<close>

definition sample_ctx :: "(sample_usage, string) CaptureContext" where
  "sample_ctx =
     \<lparr>GetResources =
        [\<lparr>ID = ResourceId 2, parentResources = [], derivedResources = [ResourceId 3],
          initialisationChunks = [0]\<rparr>,
         \<lparr>ID = ResourceId 3, parentResources = [ResourceId 2], derivedResources = [],
          initialisationChunks = [2, 1]\<rparr>,
         \<lparr>ID = ResourceId 4, parentResources = [], derivedResources = [],
          initialisationChunks = [7]\<rparr>],
      GetResourceName = (\<lambda>r. ''Resource '' @ decimal (rawId r)),
      HasResourceCustomName = (\<lambda>r. False),
      GetTexture = (\<lambda>r. r = ResourceId 2),
      GetBuffer = (\<lambda>r. r = ResourceId 3),
      chunks =
        [\<lparr>chunkName = ''CreateTexture'', chunkChildren = [''width'', ''height'']\<rparr>,
         \<lparr>chunkName = ''CreateBuffer'', chunkChildren = [''length'']\<rparr>,
         \<lparr>chunkName = ''CreateView'', chunkChildren = []\<rparr>],
      GetUsage = sample_usage_of,
      usageName = sample_usage_name,
      addStructuredObjects = map (\<lambda>n. TreeItem n [] NoData NoData [])\<rparr>"

text \<open>Two observations at one event id with different kinds.\<close>

definition dup_events :: "sample_usage EventUsage list" where
  "dup_events = [\<lparr>eventID = 10, usage = Read\<rparr>, \<lparr>eventID = 10, usage = Write\<rparr>]"

section \<open>Sample runs\<close>

text \<open>
  Runs of the inspector over the sample capture, and what they show. A run stops at the
  first fault.
\<close>

definition then_run :: "fault + 'a \<Rightarrow> ('a \<Rightarrow> 'b) \<Rightarrow> fault + 'b" where
  "then_run r f = and_then r (\<lambda>s. Inr (f s))"

definition usage_timeline_of :: "fault + 'u ResourceInspector \<Rightarrow> fault + RDTreeWidgetItem list" where
  "usage_timeline_of r = then_run r (\<lambda>s. items (resourceUsage s))"

definition usage_selection_of :: "fault + 'u ResourceInspector \<Rightarrow> fault + nat option" where
  "usage_selection_of r = then_run r (\<lambda>s. selectedItem (resourceUsage s))"

definition current_of :: "fault + 'u ResourceInspector \<Rightarrow> fault + ResourceId" where
  "current_of r = then_run r m_Resource"

definition scenario1_rows :: "RDTreeWidgetItem list" where
  "scenario1_rows =
     [TreeItem ''EID 10-12'' ''Read'' (EventData 12) NoData [],
      TreeItem ''EID 15-20'' ''Write'' (EventData 20) NoData [],
      TreeItem ''EID 21'' ''Read'' (EventData 21) NoData []]"

text \<open>Resource 2 is inspected in a fresh inspector.\<close>

definition inspected_A :: "fault + sample_usage ResourceInspector" where
  "inspected_A = Inspect sample_ctx (ResourceId 2) constructed"

text \<open>Its usage is fetched and the callback delivered: scenario 1's ranges are loaded.\<close>

definition scenario_loaded :: "fault + sample_usage ResourceInspector" where
  "scenario_loaded =
     then_run (then_run inspected_A (replay_run sample_ctx (ResourceId 2)))
       (gui_run sample_ctx (ResourceId 2, scenario1))"

text \<open>
  Resource 2 is inspected, then resource 3 before the fetch for 2 has run; then the fetch
  for 2 runs and its callback is delivered; then the same for 3.
\<close>

definition switched_to_B :: "fault + sample_usage ResourceInspector" where
  "switched_to_B = and_then inspected_A (Inspect sample_ctx (ResourceId 3))"

definition stale_delivered :: "fault + sample_usage ResourceInspector" where
  "stale_delivered =
     then_run (then_run switched_to_B (replay_run sample_ctx (ResourceId 2)))
       (gui_run sample_ctx (ResourceId 2, scenario1))"

definition both_delivered :: "fault + sample_usage ResourceInspector" where
  "both_delivered =
     then_run (then_run stale_delivered (replay_run sample_ctx (ResourceId 3)))
       (gui_run sample_ctx (ResourceId 3, [\<lparr>eventID = 30, usage = Write\<rparr>]))"

text \<open>
  Resource 2 is inspected and its usage fetched; the capture is closed before the posted
  callback runs; then the callback runs.
\<close>

definition closed_mid_fetch :: "fault + sample_usage ResourceInspector" where
  "closed_mid_fetch =
     then_run
       (then_run (then_run inspected_A (replay_run sample_ctx (ResourceId 2))) OnLogfileClosed)
       (gui_run sample_ctx (ResourceId 2, scenario1))"

text \<open>
  Resource 2 is inspected, then the id 5, which the catalog does not have; the callback for
  resource 2 is delivered afterwards. The stored id is null and resource 2's rows are
  shown.
\<close>

definition stale_on_null :: "fault + sample_usage ResourceInspector" where
  "stale_on_null =
     then_run
       (then_run (and_then inspected_A (Inspect sample_ctx (ResourceId 5)))
          (replay_run sample_ctx (ResourceId 2)))
       (gui_run sample_ctx (ResourceId 2, scenario1))"

section \<open>The coalescer on the spec's scenario\<close>

lemma coalesce_scenario1:
  "coalesce scenario1 =
     [\<lparr>startEID = 10, endEID = 12, rangeUsage = Read\<rparr>,
      \<lparr>startEID = 15, endEID = 20, rangeUsage = Write\<rparr>,
      \<lparr>startEID = 21, endEID = 21, rangeUsage = Read\<rparr>]"
  by (simp add: scenario1_def)

lemma fold_addUsageRange:
  "fold (\<lambda>r. addUsageRange ctx (startEID r) (endEID r) (rangeUsage r)) rs s =
     s\<lparr>resourceUsage := (resourceUsage s)\<lparr>items := items (resourceUsage s)
        @ map (\<lambda>r. usageItem ctx (startEID r) (endEID r) (rangeUsage r)) rs\<rparr>\<rparr>"
  by (induction rs arbitrary: s) (simp_all add: addUsageRange_def addTopLevelItem_def)

lemma usage_callback_eq:
  "usage_callback ctx us s =
     s\<lparr>resourceUsage := (resourceUsage s)\<lparr>items := items (resourceUsage s) @ usage_rows ctx us\<rparr>\<rparr>"
  by (simp add: usage_callback_def CombineUsageEvents_def usage_rows_def fold_addUsageRange)

lemma usage_rows_scenario1:
  "usage_rows sample_ctx scenario1 =
     [TreeItem ''EID 10-12'' ''Read'' (EventData 12) NoData [],
      TreeItem ''EID 15-20'' ''Write'' (EventData 20) NoData [],
      TreeItem ''EID 21'' ''Read'' (EventData 21) NoData []]"
  by (simp add: usage_rows_def coalesce_scenario1 usageItem_def sample_ctx_def
        decimal.simps digit_def)

text \<open>
  C2. The coalescer turns the events (10,Read), (12,Read), (15,Write), (20,Write), (21,Read)
  into exactly the ranges (10,12,Read), (15,20,Write), (21,21,Read): events of the open
  range's kind extend its end, a change of kind emits it and opens a new range. Handed to
  the inspector's callback, these ranges become the rows "EID 10-12", "EID 15-20" and
  "EID 21".
\<close>

theorem scenario1_ranges:
  "coalesce scenario1 =
     [\<lparr>startEID = 10, endEID = 12, rangeUsage = Read\<rparr>,
      \<lparr>startEID = 15, endEID = 20, rangeUsage = Write\<rparr>,
      \<lparr>startEID = 21, endEID = 21, rangeUsage = Read\<rparr>]
   \<and> items (resourceUsage (usage_callback sample_ctx scenario1 constructed)) =
     [TreeItem ''EID 10-12'' ''Read'' (EventData 12) NoData [],
      TreeItem ''EID 15-20'' ''Write'' (EventData 20) NoData [],
      TreeItem ''EID 21'' ''Read'' (EventData 21) NoData []]"
  by (simp add: coalesce_scenario1 usage_callback_eq usage_rows_scenario1 constructed_def)

section \<open>Order of the emitted ranges\<close>


lemma coalesce_from_bounds:
  "st \<le> en \<Longrightarrow> sorted (en # map eventID es) \<Longrightarrow> r \<in> set (coalesce_from st en k es)
     \<Longrightarrow> st \<le> startEID r \<and> startEID r \<le> endEID r"
proof (induction es arbitrary: st en k)
  case Nil
  then show ?case by simp
next
  case (Cons e es)
  have le: "en \<le> eventID e" and srt: "sorted (eventID e # map eventID es)"
    using Cons.prems(2) by simp_all
  show ?case
  proof (cases "usage e = k")
    case True
    with Cons.prems(3) have "r \<in> set (coalesce_from st (eventID e) k es)" by simp
    moreover have "st \<le> eventID e" using Cons.prems(1) le by simp
    ultimately show ?thesis using Cons.IH srt by blast
  next
    case False
    with Cons.prems(3) consider
      "r = \<lparr>startEID = st, endEID = en, rangeUsage = k\<rparr>"
      | "r \<in> set (coalesce_from (eventID e) (eventID e) (usage e) es)"
      by auto
    then show ?thesis
    proof cases
      case 1
      then show ?thesis using Cons.prems(1) by simp
    next
      case 2
      then have "eventID e \<le> startEID r \<and> startEID r \<le> endEID r"
        using Cons.IH [of "eventID e" "eventID e" "usage e"] srt by simp
      then show ?thesis using Cons.prems(1) le by auto
    qed
  qed
qed

lemma coalesce_from_chain:
  "st \<le> en \<Longrightarrow> sorted (en # map eventID es)
     \<Longrightarrow> sorted_wrt (\<lambda>a b. endEID a \<le> startEID b) (coalesce_from st en k es)"
proof (induction es arbitrary: st en k)
  case Nil
  then show ?case by simp
next
  case (Cons e es)
  have le: "en \<le> eventID e" and srt: "sorted (eventID e # map eventID es)"
    using Cons.prems(2) by simp_all
  show ?case
  proof (cases "usage e = k")
    case True
    moreover have "st \<le> eventID e" using Cons.prems(1) le by simp
    ultimately show ?thesis using Cons.IH srt by simp
  next
    case False
    have "en \<le> startEID r" if "r \<in> set (coalesce_from (eventID e) (eventID e) (usage e) es)" for r
      using coalesce_from_bounds [OF _ srt that] le by auto
    moreover have "sorted_wrt (\<lambda>a b. endEID a \<le> startEID b)
                     (coalesce_from (eventID e) (eventID e) (usage e) es)"
      using Cons.IH srt by simp
    ultimately show ?thesis using False by simp
  qed
qed

lemma coalesce_from_strict:
  "st \<le> en \<Longrightarrow> sorted (en # map eventID es)
     \<Longrightarrow> \<forall>e\<in>set es. eventID e = en \<longrightarrow> usage e = k
     \<Longrightarrow> \<forall>e\<in>set es. \<forall>e'\<in>set es. eventID e = eventID e' \<longrightarrow> usage e = usage e'
     \<Longrightarrow> sorted_wrt (\<lambda>a b. endEID a < startEID b) (coalesce_from st en k es)"
proof (induction es arbitrary: st en k)
  case Nil
  then show ?case by simp
next
  case (Cons e es)
  have le: "en \<le> eventID e" and srt: "sorted (eventID e # map eventID es)"
    using Cons.prems(2) by simp_all
  have det: "\<forall>a\<in>set es. \<forall>b\<in>set es. eventID a = eventID b \<longrightarrow> usage a = usage b"
    using Cons.prems(4) by (blast intro: list.set_intros)
  have same: "\<forall>a\<in>set es. eventID a = eventID e \<longrightarrow> usage a = usage e"
    using Cons.prems(4) by (blast intro: list.set_intros)
  show ?case
  proof (cases "usage e = k")
    case True
    have a1: "st \<le> eventID e" using Cons.prems(1) le by simp
    have a2: "\<forall>a\<in>set es. eventID a = eventID e \<longrightarrow> usage a = k"
      using same True by blast
    have "sorted_wrt (\<lambda>a b. endEID a < startEID b) (coalesce_from st (eventID e) k es)"
      by (rule Cons.IH [OF a1 srt a2 det])
    then show ?thesis using True by simp
  next
    case False
    then have "eventID e \<noteq> en" using Cons.prems(3) by (blast intro: list.set_intros)
    with le have lt: "en < eventID e" by simp
    have "en < startEID r" if "r \<in> set (coalesce_from (eventID e) (eventID e) (usage e) es)" for r
      using coalesce_from_bounds [OF _ srt that] lt by auto
    moreover have "sorted_wrt (\<lambda>a b. endEID a < startEID b)
                     (coalesce_from (eventID e) (eventID e) (usage e) es)"
      by (rule Cons.IH [OF order_refl srt same det])
    ultimately show ?thesis using False by simp
  qed
qed

lemma coalesce_range_ok:
  assumes srt: "sorted (map eventID es)" and mem: "r \<in> set (coalesce es)"
  shows "startEID r \<le> endEID r"
proof (cases es)
  case Nil
  then show ?thesis using mem by simp
next
  case (Cons e es')
  have "sorted (eventID e # map eventID es')" using srt Cons by simp
  moreover have "r \<in> set (coalesce_from (eventID e) (eventID e) (usage e) es')"
    using mem Cons by simp
  ultimately show ?thesis
    using coalesce_from_bounds [of "eventID e" "eventID e" es' r "usage e"] by simp
qed

lemma same_id_same_kind_iff:
  "same_id_same_kind es \<longleftrightarrow>
     (\<forall>e\<in>set es. \<forall>e'\<in>set es. eventID e = eventID e' \<longrightarrow> usage e = usage e')"
  by (auto simp: same_id_same_kind_def list_all_iff)

text \<open>
  C3, as amended. For every event sequence ordered by non-decreasing event id, every
  emitted range has start \<open>\<le>\<close> end, each range ends no later than every later range
  starts, and the starts are non-decreasing. When, in addition, events that share an event
  id share their kind, each range ends strictly before every later range starts (the
  ranges do not overlap) and the starts are strictly increasing.
\<close>

theorem coalesce_ordered:
  assumes "sorted (map eventID es)"
  shows "(\<forall>r\<in>set (coalesce es). startEID r \<le> endEID r)
       \<and> sorted_wrt (\<lambda>a b. endEID a \<le> startEID b) (coalesce es)
       \<and> sorted (map startEID (coalesce es))
       \<and> (same_id_same_kind es \<longrightarrow>
            sorted_wrt (\<lambda>a b. endEID a < startEID b) (coalesce es)
          \<and> sorted_wrt (<) (map startEID (coalesce es)))"
proof -
  have ok: "\<forall>r\<in>set (coalesce es). startEID r \<le> endEID r"
    using assms coalesce_range_ok by blast
  have chain: "sorted_wrt (\<lambda>a b. endEID a \<le> startEID b) (coalesce es)"
  proof (cases es)
    case Nil
    then show ?thesis by simp
  next
    case (Cons e es')
    then show ?thesis using assms coalesce_from_chain [of "eventID e" "eventID e" es' "usage e"] by simp
  qed
  have starts: "sorted (map startEID (coalesce es))"
  proof -
    have "sorted_wrt (\<lambda>a b. startEID a \<le> startEID b) (coalesce es)"
    proof (rule sorted_wrt_mono_rel [OF _ chain])
      fix a b
      assume "a \<in> set (coalesce es)" "endEID a \<le> startEID b"
      then show "startEID a \<le> startEID b" using ok by fastforce
    qed
    then show ?thesis by (simp add: sorted_map)
  qed
  have strict: "sorted_wrt (\<lambda>a b. endEID a < startEID b) (coalesce es)" if det: "same_id_same_kind es"
  proof (cases es)
    case Nil
    then show ?thesis by simp
  next
    case (Cons e es')
    have d: "\<forall>a\<in>set es. \<forall>b\<in>set es. eventID a = eventID b \<longrightarrow> usage a = usage b"
      using det same_id_same_kind_iff by blast
    have s1: "sorted (eventID e # map eventID es')" using assms Cons by simp
    have d1: "\<forall>a\<in>set es'. eventID a = eventID e \<longrightarrow> usage a = usage e"
      using d Cons by (blast intro: list.set_intros)
    have d2: "\<forall>a\<in>set es'. \<forall>b\<in>set es'. eventID a = eventID b \<longrightarrow> usage a = usage b"
      using d Cons by (blast intro: list.set_intros)
    have "sorted_wrt (\<lambda>a b. endEID a < startEID b) (coalesce_from (eventID e) (eventID e) (usage e) es')"
      by (rule coalesce_from_strict [OF order_refl s1 d1 d2])
    then show ?thesis using Cons by simp
  qed
  have sstarts: "sorted_wrt (<) (map startEID (coalesce es))" if det: "same_id_same_kind es"
  proof -
    have "sorted_wrt (\<lambda>a b. startEID a < startEID b) (coalesce es)"
    proof (rule sorted_wrt_mono_rel [OF _ strict [OF det]])
      fix a b
      assume "a \<in> set (coalesce es)" "endEID a < startEID b"
      then show "startEID a < startEID b" using ok by fastforce
    qed
    then show ?thesis by (simp add: sorted_wrt_map)
  qed
  show ?thesis using ok chain starts strict sstarts by blast
qed

text \<open>The amended C3 at scenario 1, whose hypotheses hold there.\<close>

theorem coalesce_ordered_witness:
  "sorted (map eventID scenario1) \<and> same_id_same_kind scenario1
   \<and> list_all (\<lambda>r. startEID r \<le> endEID r) (coalesce scenario1)
   \<and> sorted_wrt (\<lambda>a b. endEID a < startEID b) (coalesce scenario1)
   \<and> sorted_wrt (<) (map startEID (coalesce scenario1))"
proof -
  have h: "sorted (map eventID scenario1)" by (simp add: scenario1_def)
  have d: "same_id_same_kind scenario1" by (simp add: scenario1_def same_id_same_kind_def)
  show ?thesis using coalesce_ordered [OF h] h d unfolding list_all_iff by blast
qed

text \<open>
  C3 as stated fails: two observations at event id 10 with different kinds give two ranges
  that both start at 10.
\<close>

theorem coalesce_strict_counterexample:
  "sorted (map eventID dup_events)
   \<and> coalesce dup_events =
       [\<lparr>startEID = 10, endEID = 10, rangeUsage = Read\<rparr>,
        \<lparr>startEID = 10, endEID = 10, rangeUsage = Write\<rparr>]
   \<and> \<not> sorted_wrt (<) (map startEID (coalesce dup_events))"
  by (simp add: dup_events_def)


section \<open>Inspect, step by step\<close>

lemmas widget_defs = clear_def addTopLevelItem_def setSelectedItem_def setUpdatesEnabled_def

lemma fold_addTopLevelItem: "fold addTopLevelItem its w = w\<lparr>items := items w @ its\<rparr>"
  by (induction its arbitrary: w) (simp_all add: addTopLevelItem_def)

lemma initChunkRoot_entry: "initChunkRoot ctx c = Inr (chunk_entry ctx c)"
proof (cases "unat c < length (chunks ctx)")
  case True
  then have "drop (unat c) (chunks ctx) = chunks ctx ! unat c # drop (Suc (unat c)) (chunks ctx)"
    by (simp add: Cons_nth_drop_Suc)
  with True show ?thesis
    by (simp add: initChunkRoot_def rdcarray_at_def chunk_entry_def)
next
  case False
  then show ?thesis
    by (simp add: initChunkRoot_def chunk_entry_def invalid_chunk_placeholder_def)
qed

lemma addInitChunks_entries:
  "\<exists>w'. addInitChunks ctx cs w = Inr w'
        \<and> items w' = items w @ map (chunk_entry ctx) cs
        \<and> updatesEnabled w' = updatesEnabled w"
proof (induction cs arbitrary: w)
  case Nil
  then show ?case by simp
next
  case (Cons c cs)
  let ?w1 = "setSelectedItem (length (items w)) (addTopLevelItem (chunk_entry ctx c) w)"
  obtain w' where "addInitChunks ctx cs ?w1 = Inr w'"
    "items w' = items ?w1 @ map (chunk_entry ctx) cs" "updatesEnabled w' = updatesEnabled ?w1"
    using Cons.IH by blast
  then show ?case
    by (simp add: initChunkRoot_entry widget_defs)
qed

lemma Inspect_same: "m_Resource s = rid \<Longrightarrow> Inspect ctx rid s = Inr s"
  by (simp add: Inspect_def)

lemma Inspect_missing_eq:
  assumes "GetResource ctx rid = None" "m_Resource s \<noteq> rid"
  shows "Inspect ctx rid s =
     Inr (s\<lparr>m_Resource := ResourceId_null,
            resourceName := ''No Resource Selected'',
            viewContentsVisible := (GetTexture ctx rid \<or> GetBuffer ctx rid),
            resetNameVisible := HasResourceCustomName ctx rid,
            initChunks := (initChunks s)\<lparr>items := [], selectedItem := None, updatesEnabled := True\<rparr>,
            relatedResources := clear (relatedResources s),
            resourceUsage := clear (resourceUsage s),
            replayQueue := replayQueue s @ [rid]\<rparr>)"
  using assms by (simp add: Inspect_def Inspect_missing_def Inspect_reset_def widget_defs)

lemma Inspect_found_eq:
  assumes "GetResource ctx rid = Some desc" "m_Resource s \<noteq> rid"
  shows "\<exists>w. Inspect ctx rid s =
     Inr (s\<lparr>m_Resource := rid,
            resourceName := GetResourceName ctx rid,
            viewContentsVisible := (GetTexture ctx rid \<or> GetBuffer ctx rid),
            resetNameVisible := HasResourceCustomName ctx rid,
            initChunks := w,
            relatedResources := (relatedResources s)\<lparr>items :=
               map (relatedItem ''Parent'' ctx) (parentResources desc)
               @ map (relatedItem ''Derived'' ctx) (derivedResources desc), selectedItem := None\<rparr>,
            resourceUsage := clear (resourceUsage s),
            replayQueue := replayQueue s @ [rid]\<rparr>)
     \<and> items w = map (chunk_entry ctx) (initialisationChunks desc) \<and> updatesEnabled w"
proof -
  let ?w0 = "clear (setUpdatesEnabled False (initChunks s))"
  obtain w' where w': "addInitChunks ctx (initialisationChunks desc) ?w0 = Inr w'"
    "items w' = items ?w0 @ map (chunk_entry ctx) (initialisationChunks desc)"
    using addInitChunks_entries by blast
  have "Inspect ctx rid s =
     Inr (s\<lparr>m_Resource := rid,
            resourceName := GetResourceName ctx rid,
            viewContentsVisible := (GetTexture ctx rid \<or> GetBuffer ctx rid),
            resetNameVisible := HasResourceCustomName ctx rid,
            initChunks := setUpdatesEnabled True w',
            relatedResources := (relatedResources s)\<lparr>items :=
               map (relatedItem ''Parent'' ctx) (parentResources desc)
               @ map (relatedItem ''Derived'' ctx) (derivedResources desc), selectedItem := None\<rparr>,
            resourceUsage := clear (resourceUsage s),
            replayQueue := replayQueue s @ [rid]\<rparr>)"
    using assms w'(1)
    by (simp add: Inspect_def Inspect_found_def Inspect_reset_def fold_addTopLevelItem clear_def)
  moreover have "items (setUpdatesEnabled True w') = map (chunk_entry ctx) (initialisationChunks desc)"
    using w'(2) by (simp add: widget_defs)
  moreover have "updatesEnabled (setUpdatesEnabled True w')" by (simp add: widget_defs)
  ultimately show ?thesis by blast
qed

lemma Inspect_total: "\<exists>s'. Inspect ctx rid s = Inr s'"
proof (cases "m_Resource s = rid")
  case True
  then show ?thesis by (simp add: Inspect_same)
next
  case False
  show ?thesis
  proof (cases "GetResource ctx rid")
    case None
    then show ?thesis using Inspect_missing_eq [OF None False] by blast
  next
    case (Some desc)
    then show ?thesis using Inspect_found_eq [OF Some False] by blast
  qed
qed


lemma Inspect_fresh:
  assumes "m_Resource s \<noteq> rid"
  shows "\<exists>s'. Inspect ctx rid s = Inr s'
           \<and> m_Resource s' = (if GetResource ctx rid = None then ResourceId_null else rid)
           \<and> items (resourceUsage s') = []
           \<and> selectedItem (resourceUsage s') = None
           \<and> replayQueue s' = replayQueue s @ [rid]
           \<and> guiQueue s' = guiQueue s"
proof (cases "GetResource ctx rid")
  case None
  show ?thesis
    unfolding Inspect_missing_eq [OF None assms] using None by (simp add: clear_def)
next
  case (Some desc)
  obtain w where "Inspect ctx rid s =
     Inr (s\<lparr>m_Resource := rid,
            resourceName := GetResourceName ctx rid,
            viewContentsVisible := (GetTexture ctx rid \<or> GetBuffer ctx rid),
            resetNameVisible := HasResourceCustomName ctx rid,
            initChunks := w,
            relatedResources := (relatedResources s)\<lparr>items :=
               map (relatedItem ''Parent'' ctx) (parentResources desc)
               @ map (relatedItem ''Derived'' ctx) (derivedResources desc), selectedItem := None\<rparr>,
            resourceUsage := clear (resourceUsage s),
            replayQueue := replayQueue s @ [rid]\<rparr>)"
    using Inspect_found_eq [OF Some assms] by blast
  then show ?thesis using Some by (simp add: clear_def)
qed

lemma deliver_after_fetch:
  assumes "rid \<in> set (replayQueue s)"
  shows "items (resourceUsage (gui_run ctx (rid, GetUsage ctx rid) (replay_run ctx rid s)))
           = items (resourceUsage s) @ usage_rows ctx (GetUsage ctx rid)"
    and "replayQueue (gui_run ctx (rid, GetUsage ctx rid) (replay_run ctx rid s))
           = remove1 rid (replayQueue s)"
    and "m_Resource (gui_run ctx (rid, GetUsage ctx rid) (replay_run ctx rid s)) = m_Resource s"
  using assms by (simp_all add: gui_run_def replay_run_def usage_callback_eq)

section \<open>Completions of superseded queries\<close>

text \<open>
  C1, as amended. Let A be a resource of the catalog that is not the current one, and B
  another id. After Inspect(A) and Inspect(B), both queries are queued and the timeline
  is empty. When the fetch for A then runs and its callback is delivered, the callback is
  not discarded: the timeline shows A's ranges while the stored id stays what Inspect(B)
  left. When B's callback is delivered after it, the timeline shows A's ranges followed by
  B's.
\<close>

theorem stale_usage_is_appended:
  assumes "m_Resource s \<noteq> A" and "GetResource ctx A = Some descA" and "B \<noteq> A"
  shows "\<exists>sA sB. Inspect ctx A s = Inr sA \<and> Inspect ctx B sA = Inr sB
           \<and> replayQueue sB = replayQueue s @ [A, B]
           \<and> items (resourceUsage sB) = []
           \<and> items (resourceUsage (gui_run ctx (A, GetUsage ctx A) (replay_run ctx A sB)))
                = usage_rows ctx (GetUsage ctx A)
           \<and> m_Resource (gui_run ctx (A, GetUsage ctx A) (replay_run ctx A sB)) = m_Resource sB
           \<and> items (resourceUsage
                 (gui_run ctx (B, GetUsage ctx B) (replay_run ctx B
                    (gui_run ctx (A, GetUsage ctx A) (replay_run ctx A sB)))))
                = usage_rows ctx (GetUsage ctx A) @ usage_rows ctx (GetUsage ctx B)"
proof -
  obtain sA where sA: "Inspect ctx A s = Inr sA" "m_Resource sA = A"
      "replayQueue sA = replayQueue s @ [A]"
    using Inspect_fresh [OF assms(1), of ctx] assms(2) by auto
  have "m_Resource sA \<noteq> B" using sA(2) assms(3) by simp
  then obtain sB where sB: "Inspect ctx B sA = Inr sB" "items (resourceUsage sB) = []"
      "replayQueue sB = replayQueue sA @ [B]"
    using Inspect_fresh [of sA B ctx] by blast
  let ?s1 = "gui_run ctx (A, GetUsage ctx A) (replay_run ctx A sB)"
  have inA: "A \<in> set (replayQueue sB)" using sA(3) sB(3) by simp
  have q1: "replayQueue ?s1 = remove1 A (replayQueue sB)"
    by (rule deliver_after_fetch(2) [OF inA])
  have "B \<in> set (remove1 A (replayQueue sB))"
    using sB(3) assms(3) by (simp add: in_set_remove1)
  then have inB: "B \<in> set (replayQueue ?s1)" using q1 by simp
  have r1: "items (resourceUsage ?s1) = usage_rows ctx (GetUsage ctx A)"
    using deliver_after_fetch(1) [OF inA] sB(2) by simp
  have r2: "items (resourceUsage (gui_run ctx (B, GetUsage ctx B) (replay_run ctx B ?s1)))
              = usage_rows ctx (GetUsage ctx A) @ usage_rows ctx (GetUsage ctx B)"
    using deliver_after_fetch(1) [OF inB] r1 by simp
  have m1: "m_Resource ?s1 = m_Resource sB" by (rule deliver_after_fetch(3) [OF inA])
  have q: "replayQueue sB = replayQueue s @ [A, B]" using sA(3) sB(3) by simp
  show ?thesis using sA(1) sB(1) sB(2) q r1 r2 m1 by blast
qed

lemma GetResource_sample:
  "GetResource sample_ctx (ResourceId 2) =
     Some \<lparr>ID = ResourceId 2, parentResources = [], derivedResources = [ResourceId 3],
           initialisationChunks = [0]\<rparr>"
  "GetResource sample_ctx (ResourceId 4) =
     Some \<lparr>ID = ResourceId 4, parentResources = [], derivedResources = [],
           initialisationChunks = [7]\<rparr>"
  "GetResource sample_ctx (ResourceId 5) = None"
  "GetResource sample_ctx ResourceId_null = None"
  by (simp_all add: GetResource_def sample_ctx_def)

lemma GetUsage_sample:
  "GetUsage sample_ctx (ResourceId 2) = scenario1"
  "GetUsage sample_ctx (ResourceId 3) = [\<lparr>eventID = 30, usage = Write\<rparr>]"
  by (simp_all add: sample_ctx_def sample_usage_of_def)

lemma usage_rows_sample_2:
  "usage_rows sample_ctx [\<lparr>eventID = 30, usage = Write\<rparr>] =
     [TreeItem ''EID 30'' ''Write'' (EventData 30) NoData []]"
  by (simp add: usage_rows_def usageItem_def sample_ctx_def decimal.simps digit_def)

theorem stale_usage_is_appended_witness:
  "m_Resource (constructed :: sample_usage ResourceInspector) \<noteq> ResourceId 2
   \<and> GetResource sample_ctx (ResourceId 2) \<noteq> None \<and> ResourceId 3 \<noteq> ResourceId 2
   \<and> (\<exists>sA sB. Inspect sample_ctx (ResourceId 2) constructed = Inr sA
         \<and> Inspect sample_ctx (ResourceId 3) sA = Inr sB
         \<and> items (resourceUsage (gui_run sample_ctx (ResourceId 2, scenario1)
                                    (replay_run sample_ctx (ResourceId 2) sB)))
              = scenario1_rows)"
proof -
  have h1: "m_Resource (constructed :: sample_usage ResourceInspector) \<noteq> ResourceId 2"
    by (simp add: constructed_def)
  have h3: "ResourceId 3 \<noteq> ResourceId 2" by simp
  have h2: "GetResource sample_ctx (ResourceId 2) \<noteq> None"
    unfolding GetResource_sample by simp
  obtain sA sB where run: "Inspect sample_ctx (ResourceId 2) constructed = Inr sA"
      "Inspect sample_ctx (ResourceId 3) sA = Inr sB"
      "items (resourceUsage
         (gui_run sample_ctx (ResourceId 2, GetUsage sample_ctx (ResourceId 2))
            (replay_run sample_ctx (ResourceId 2) sB)))
       = usage_rows sample_ctx (GetUsage sample_ctx (ResourceId 2))"
    using stale_usage_is_appended [OF h1 GetResource_sample(1) h3] by blast
  have "items (resourceUsage (gui_run sample_ctx (ResourceId 2, scenario1)
                 (replay_run sample_ctx (ResourceId 2) sB))) = scenario1_rows"
    using run(3) unfolding GetUsage_sample usage_rows_scenario1 scenario1_rows_def .
  then show ?thesis using h1 h2 h3 run(1,2) by blast
qed


section \<open>The sample runs, evaluated\<close>

lemmas sample_eval =
  Inspect_def Inspect_found_def Inspect_missing_def Inspect_reset_def GetResource_def
  initChunkRoot_def rdcarray_at_def relatedItem_def widget_defs sample_ctx_def
  sample_usage_of_def then_run_def replay_run_def gui_run_def usage_callback_eq
  usage_rows_def usageItem_def decimal.simps digit_def constructed_def

lemma inspected_A_eq:
  "inspected_A =
     Inr \<lparr>m_Resource = ResourceId 2, resourceName = ''Resource 2'',
          resetNameVisible = False, resourceNameEditVisible = False,
          renameResourceEnabled = False, viewContentsVisible = True,
          initChunks =
            \<lparr>items =
               [TreeItem ''CreateTexture'' [] NoData NoData
                  [TreeItem ''width'' [] NoData NoData [],
                   TreeItem ''height'' [] NoData NoData []]],
             selectedItem = Some 0, updatesEnabled = True\<rparr>,
          relatedResources =
            \<lparr>items =
               [TreeItem ''Derived'' ''Resource 3''
                  (ResourceData (ResourceId 3)) (ResourceData (ResourceId 3)) []],
             selectedItem = None, updatesEnabled = True\<rparr>,
          resourceUsage = \<lparr>items = [], selectedItem = None, updatesEnabled = True\<rparr>,
          replayQueue = [ResourceId 2], guiQueue = []\<rparr>"
  by (simp add: inspected_A_def sample_eval)

lemma scenario_loaded_eq:
  "scenario_loaded =
     Inr \<lparr>m_Resource = ResourceId 2, resourceName = ''Resource 2'',
          resetNameVisible = False, resourceNameEditVisible = False,
          renameResourceEnabled = False, viewContentsVisible = True,
          initChunks =
            \<lparr>items =
               [TreeItem ''CreateTexture'' [] NoData NoData
                  [TreeItem ''width'' [] NoData NoData [],
                   TreeItem ''height'' [] NoData NoData []]],
             selectedItem = Some 0, updatesEnabled = True\<rparr>,
          relatedResources =
            \<lparr>items =
               [TreeItem ''Derived'' ''Resource 3''
                  (ResourceData (ResourceId 3)) (ResourceData (ResourceId 3)) []],
             selectedItem = None, updatesEnabled = True\<rparr>,
          resourceUsage = \<lparr>items = scenario1_rows, selectedItem = None, updatesEnabled = True\<rparr>,
          replayQueue = [], guiQueue = []\<rparr>"
  by (simp add: scenario_loaded_def inspected_A_eq then_run_def replay_run_def gui_run_def
        usage_callback_eq usage_rows_scenario1 scenario1_rows_def GetUsage_sample)

lemma switched_to_B_eq:
  "switched_to_B =
     Inr \<lparr>m_Resource = ResourceId 3, resourceName = ''Resource 3'',
          resetNameVisible = False, resourceNameEditVisible = False,
          renameResourceEnabled = False, viewContentsVisible = True,
          initChunks =
            \<lparr>items =
               [TreeItem ''CreateView'' [] NoData NoData [],
                TreeItem ''CreateBuffer'' [] NoData NoData
                  [TreeItem ''length'' [] NoData NoData []]],
             selectedItem = Some 1, updatesEnabled = True\<rparr>,
          relatedResources =
            \<lparr>items =
               [TreeItem ''Parent'' ''Resource 2''
                  (ResourceData (ResourceId 2)) (ResourceData (ResourceId 2)) []],
             selectedItem = None, updatesEnabled = True\<rparr>,
          resourceUsage = \<lparr>items = [], selectedItem = None, updatesEnabled = True\<rparr>,
          replayQueue = [ResourceId 2, ResourceId 3], guiQueue = []\<rparr>"
  by (simp add: switched_to_B_def inspected_A_eq sample_eval)

lemma stale_delivered_shows:
  "usage_timeline_of stale_delivered = Inr scenario1_rows"
  "current_of stale_delivered = Inr (ResourceId 3)"
  "usage_timeline_of both_delivered =
     Inr (scenario1_rows @ [TreeItem ''EID 30'' ''Write'' (EventData 30) NoData []])"
  by (simp_all add: usage_timeline_of_def current_of_def both_delivered_def stale_delivered_def
        switched_to_B_eq then_run_def replay_run_def gui_run_def usage_callback_eq
        usage_rows_scenario1 usage_rows_sample_2 scenario1_rows_def GetUsage_sample)

text \<open>
  C1 as stated fails. Resource 2 is inspected, then resource 3; the callback carrying
  resource 2's usage arrives after that and fills the timeline with resource 2's ranges
  while resource 3 is the current one; after resource 3's own callback the timeline shows
  four rows, not resource 3's single row.
\<close>

theorem stale_result_counterexample:
  "current_of stale_delivered = Inr (ResourceId 3)
   \<and> usage_timeline_of stale_delivered = Inr scenario1_rows
   \<and> usage_timeline_of both_delivered =
       Inr (scenario1_rows @ [TreeItem ''EID 30'' ''Write'' (EventData 30) NoData []])
   \<and> usage_rows sample_ctx (GetUsage sample_ctx (ResourceId 3)) =
       [TreeItem ''EID 30'' ''Write'' (EventData 30) NoData []]"
  by (simp only: stale_delivered_shows GetUsage_sample usage_rows_sample_2 simp_thms)

section \<open>Inspecting the current resource again\<close>

text \<open>
  C4. In every state, Inspect(id) with id equal to the stored current id returns the
  state as it was: no field, no widget and neither queue changes, so nothing is displayed
  anew and no usage query is issued.
\<close>

theorem inspect_current_is_noop:
  "m_Resource s = rid \<Longrightarrow> Inspect ctx rid s = Inr s"
  by (simp add: Inspect_def)

theorem inspect_current_is_noop_witness:
  "\<exists>s. scenario_loaded = Inr s \<and> m_Resource s = ResourceId 2
       \<and> Inspect sample_ctx (ResourceId 2) s = Inr s"
proof -
  obtain s where s: "scenario_loaded = Inr s" "m_Resource s = ResourceId 2"
    using scenario_loaded_eq by simp
  from inspect_current_is_noop [OF s(2)] s show ?thesis by blast
qed

section \<open>Position changes\<close>

lemma OnEventChanged_eq: "OnEventChanged ctx event s = Inr s"
  by (simp add: OnEventChanged_def Inspect_same)

text \<open>
  C5. For every replay position and every state, OnEventChanged returns without a fault,
  leaves the stored current id as it was and leaves both queues of the asynchronous usage
  query as they were: it issues no query.
\<close>

theorem position_change_issues_no_query:
  "\<exists>s'. OnEventChanged ctx event s = Inr s' \<and> m_Resource s' = m_Resource s
        \<and> replayQueue s' = replayQueue s \<and> guiQueue s' = guiQueue s"
  by (simp add: OnEventChanged_eq)

text \<open>
  C6, as amended. OnEventChanged marks no usage range: for every event id it leaves the
  rows of the usage timeline and its selection exactly as they were.
\<close>

theorem position_change_marks_nothing:
  "\<exists>s'. OnEventChanged ctx event s = Inr s'
        \<and> items (resourceUsage s') = items (resourceUsage s)
        \<and> selectedItem (resourceUsage s') = selectedItem (resourceUsage s)"
  by (simp add: OnEventChanged_eq)

text \<open>
  C6 as stated fails: with scenario 1's ranges loaded, OnEventChanged(18) leaves the
  three rows with none selected; the row of (15,20,Write), at index 1, is not marked.
\<close>

theorem active_range_counterexample:
  "usage_timeline_of (and_then scenario_loaded (OnEventChanged sample_ctx 18)) = Inr scenario1_rows
   \<and> usage_selection_of (and_then scenario_loaded (OnEventChanged sample_ctx 18)) = Inr None
   \<and> usage_selection_of (and_then scenario_loaded (OnEventChanged sample_ctx 18)) \<noteq> Inr (Some 1)
   \<and> and_then scenario_loaded (OnEventChanged sample_ctx 18) = scenario_loaded"
  by (simp add: scenario_loaded_eq OnEventChanged_eq usage_timeline_of_def
        usage_selection_of_def then_run_def)

section \<open>Initialisation chunks\<close>

lemma chunk_entry_cases:
  "chunk_entry ctx c =
     (if unat c < length (chunks ctx)
      then TreeItem (chunkName (chunks ctx ! unat c)) [] NoData NoData
             (addStructuredObjects ctx (chunkChildren (chunks ctx ! unat c)))
      else invalid_chunk_placeholder c)"
proof (cases "unat c < length (chunks ctx)")
  case True
  then have "drop (unat c) (chunks ctx) = chunks ctx ! unat c # drop (Suc (unat c)) (chunks ctx)"
    by (simp add: Cons_nth_drop_Suc)
  with True show ?thesis by (simp add: chunk_entry_def)
next
  case False
  then show ?thesis by (simp add: chunk_entry_def)
qed

text \<open>
  C7. For every chunk index, one pass of the loop over the initialisation chunks builds
  its entry without a fault, so no access past the end of the chunk table occurs: the
  chunk's name with its structured contents when the index is inside the chunk table, the
  placeholder "Invalid chunk index n" otherwise. When Inspect runs for a catalogued
  resource that is not the current one, it returns without a fault and the initialisation
  view holds exactly these entries, one per chunk index of the resource, in order.
\<close>

theorem inspect_init_chunks:
  "initChunkRoot ctx c = Inr (chunk_entry ctx c)
   \<and> chunk_entry ctx c =
       (if unat c < length (chunks ctx)
        then TreeItem (chunkName (chunks ctx ! unat c)) [] NoData NoData
               (addStructuredObjects ctx (chunkChildren (chunks ctx ! unat c)))
        else TreeItem [] (''Invalid chunk index '' @ decimal (unat c)) NoData NoData [])
   \<and> (GetResource ctx rid = Some desc \<and> m_Resource s \<noteq> rid \<longrightarrow>
        (\<exists>s'. Inspect ctx rid s = Inr s'
           \<and> items (initChunks s') = map (chunk_entry ctx) (initialisationChunks desc)))"
proof -
  have "\<exists>s'. Inspect ctx rid s = Inr s'
           \<and> items (initChunks s') = map (chunk_entry ctx) (initialisationChunks desc)"
    if found: "GetResource ctx rid = Some desc" "m_Resource s \<noteq> rid"
  proof -
    obtain w where "Inspect ctx rid s =
       Inr (s\<lparr>m_Resource := rid,
              resourceName := GetResourceName ctx rid,
              viewContentsVisible := (GetTexture ctx rid \<or> GetBuffer ctx rid),
              resetNameVisible := HasResourceCustomName ctx rid,
              initChunks := w,
              relatedResources := (relatedResources s)\<lparr>items :=
                 map (relatedItem ''Parent'' ctx) (parentResources desc)
                 @ map (relatedItem ''Derived'' ctx) (derivedResources desc), selectedItem := None\<rparr>,
              resourceUsage := clear (resourceUsage s),
              replayQueue := replayQueue s @ [rid]\<rparr>)"
       "items w = map (chunk_entry ctx) (initialisationChunks desc)"
      using Inspect_found_eq [OF found] by blast
    then show ?thesis by simp
  qed
  then show ?thesis
    using initChunkRoot_entry [of ctx c] chunk_entry_cases [of ctx c]
    by (simp add: invalid_chunk_placeholder_def)
qed

text \<open>
  Scenario 4: resource 4 names the chunk index 7 and the chunk table has three entries;
  the initialisation view shows the one placeholder.
\<close>

theorem inspect_init_chunks_witness:
  "GetResource sample_ctx (ResourceId 4) \<noteq> None
   \<and> m_Resource (constructed :: sample_usage ResourceInspector) \<noteq> ResourceId 4
   \<and> length (chunks sample_ctx) = 3
   \<and> initChunkRoot sample_ctx 7 = Inr (TreeItem [] ''Invalid chunk index 7'' NoData NoData [])
   \<and> (\<exists>s'. Inspect sample_ctx (ResourceId 4) constructed = Inr s'
          \<and> items (initChunks s') = [TreeItem [] ''Invalid chunk index 7'' NoData NoData []])"
proof -
  have h2: "m_Resource (constructed :: sample_usage ResourceInspector) \<noteq> ResourceId 4"
    by (simp add: constructed_def)
  have l: "length (chunks sample_ctx) = 3" by (simp add: sample_ctx_def)
  have g: "GetResource sample_ctx (ResourceId 4) \<noteq> None"
    unfolding GetResource_sample by simp
  note inst = inspect_init_chunks [of sample_ctx 7 "ResourceId 4"
      "\<lparr>ID = ResourceId 4, parentResources = [], derivedResources = [],
        initialisationChunks = [7]\<rparr>" constructed]
  have e: "chunk_entry sample_ctx 7 = TreeItem [] ''Invalid chunk index 7'' NoData NoData []"
    using inst l by (simp add: decimal.simps digit_def)
  have r: "initChunkRoot sample_ctx 7 = Inr (TreeItem [] ''Invalid chunk index 7'' NoData NoData [])"
    using inst e by simp
  obtain s' where "Inspect sample_ctx (ResourceId 4) constructed = Inr s'"
    "items (initChunks s') = map (chunk_entry sample_ctx) [7]"
    using inst GetResource_sample(2) h2 by auto
  then show ?thesis using e l g h2 r by auto
qed

section \<open>Ids the catalog does not have\<close>

text \<open>
  C8, as amended. For every id with no description in the catalog that differs from the
  stored current id, Inspect(id) returns without a fault; on return the relationship and
  initialisation views and the usage timeline are empty, the name reads "No Resource
  Selected" and the stored current id is null.
\<close>

theorem inspect_absent_id:
  assumes "GetResource ctx rid = None" and "m_Resource s \<noteq> rid"
  shows "\<exists>s'. Inspect ctx rid s = Inr s'
           \<and> items (relatedResources s') = [] \<and> items (initChunks s') = []
           \<and> items (resourceUsage s') = []
           \<and> resourceName s' = ''No Resource Selected''
           \<and> m_Resource s' = ResourceId_null"
  unfolding Inspect_missing_eq [OF assms] by (simp add: clear_def)

theorem inspect_absent_id_witness:
  "\<exists>s s'. scenario_loaded = Inr s \<and> GetResource sample_ctx (ResourceId 5) = None
     \<and> m_Resource s \<noteq> ResourceId 5 \<and> items (resourceUsage s) \<noteq> []
     \<and> Inspect sample_ctx (ResourceId 5) s = Inr s'
     \<and> items (relatedResources s') = [] \<and> items (initChunks s') = []
     \<and> items (resourceUsage s') = [] \<and> resourceName s' = ''No Resource Selected''"
proof -
  obtain s where s: "scenario_loaded = Inr s" "m_Resource s \<noteq> ResourceId 5"
    "items (resourceUsage s) \<noteq> []"
    using scenario_loaded_eq by (simp add: scenario1_rows_def)
  from inspect_absent_id [OF GetResource_sample(3) s(2)] s GetResource_sample(3)
  show ?thesis by blast
qed

lemma absent_after_A_eq:
  "and_then inspected_A (Inspect sample_ctx (ResourceId 5)) =
     Inr \<lparr>m_Resource = ResourceId_null, resourceName = ''No Resource Selected'',
          resetNameVisible = False, resourceNameEditVisible = False,
          renameResourceEnabled = False, viewContentsVisible = False,
          initChunks = \<lparr>items = [], selectedItem = None, updatesEnabled = True\<rparr>,
          relatedResources = \<lparr>items = [], selectedItem = None, updatesEnabled = True\<rparr>,
          resourceUsage = \<lparr>items = [], selectedItem = None, updatesEnabled = True\<rparr>,
          replayQueue = [ResourceId 2, ResourceId 5], guiQueue = []\<rparr>"
  by (simp add: inspected_A_eq sample_eval)

lemma stale_on_null_eq:
  "stale_on_null =
     Inr \<lparr>m_Resource = ResourceId_null, resourceName = ''No Resource Selected'',
          resetNameVisible = False, resourceNameEditVisible = False,
          renameResourceEnabled = False, viewContentsVisible = False,
          initChunks = \<lparr>items = [], selectedItem = None, updatesEnabled = True\<rparr>,
          relatedResources = \<lparr>items = [], selectedItem = None, updatesEnabled = True\<rparr>,
          resourceUsage = \<lparr>items = scenario1_rows, selectedItem = None, updatesEnabled = True\<rparr>,
          replayQueue = [ResourceId 5], guiQueue = []\<rparr>"
  by (simp add: stale_on_null_def absent_after_A_eq
        then_run_def replay_run_def gui_run_def usage_callback_eq usage_rows_scenario1
        scenario1_rows_def GetUsage_sample)

text \<open>
  C8 as stated fails at the null id, which the catalog does not have. In the state
  reached by inspecting resource 2, then the absent id 5, and then receiving resource 2's
  usage, the stored id is null; Inspect(null) returns at the equality guard and the usage
  timeline keeps its three rows.
\<close>

theorem inspect_absent_counterexample:
  "GetResource sample_ctx ResourceId_null = None
   \<and> current_of stale_on_null = Inr ResourceId_null
   \<and> usage_timeline_of (and_then stale_on_null (Inspect sample_ctx ResourceId_null))
       = Inr scenario1_rows
   \<and> scenario1_rows \<noteq> []"
  by (simp add: GetResource_sample stale_on_null_eq Inspect_same usage_timeline_of_def
        current_of_def then_run_def scenario1_rows_def)

section \<open>Closing the capture\<close>

text \<open>
  C9, as amended. OnLogfileClosed sets the stored current id to null, makes the name read
  "No Resource Selected" and clears the relationship view, the initialisation view and
  the usage timeline. There is no request token: both queues of the usage query are left
  as they were, and a usage callback that runs after the close adds its rows to the
  cleared timeline.
\<close>

theorem close_clears_display_only:
  "m_Resource (OnLogfileClosed s) = ResourceId_null
   \<and> resourceName (OnLogfileClosed s) = ''No Resource Selected''
   \<and> items (relatedResources (OnLogfileClosed s)) = []
   \<and> items (initChunks (OnLogfileClosed s)) = []
   \<and> items (resourceUsage (OnLogfileClosed s)) = []
   \<and> replayQueue (OnLogfileClosed s) = replayQueue s
   \<and> guiQueue (OnLogfileClosed s) = guiQueue s
   \<and> items (resourceUsage (usage_callback ctx us (OnLogfileClosed s))) = usage_rows ctx us"
  by (simp add: OnLogfileClosed_def clear_def usage_callback_eq)

text \<open>
  C9 as stated fails: resource 2's usage is fetched, the capture is closed, and the
  callback posted before the close still fills the timeline afterwards.
\<close>

theorem close_mid_fetch_counterexample:
  "current_of closed_mid_fetch = Inr ResourceId_null
   \<and> usage_timeline_of closed_mid_fetch = Inr scenario1_rows
   \<and> scenario1_rows \<noteq> []"
  by (simp add: closed_mid_fetch_def inspected_A_eq then_run_def replay_run_def gui_run_def
        OnLogfileClosed_def clear_def usage_callback_eq usage_rows_scenario1 GetUsage_sample
        usage_timeline_of_def current_of_def scenario1_rows_def)

section \<open>Inspecting an absent id twice\<close>

lemma current_known_constructed: "current_known ctx constructed"
  by (simp add: current_known_def constructed_def)

lemma current_known_Inspect:
  "current_known ctx s \<Longrightarrow> Inspect ctx rid s = Inr s' \<Longrightarrow> current_known ctx s'"
proof (cases "m_Resource s = rid")
  case True
  assume "current_known ctx s" "Inspect ctx rid s = Inr s'"
  then show ?thesis using True by (simp add: Inspect_same)
next
  case False
  assume "Inspect ctx rid s = Inr s'"
  then show ?thesis
    using Inspect_fresh [OF False, of ctx] by (auto simp: current_known_def)
qed

lemma current_known_OnLogfileClosed: "current_known ctx (OnLogfileClosed s)"
  by (simp add: current_known_def OnLogfileClosed_def)

lemma current_known_async:
  "current_known ctx s \<Longrightarrow> current_known ctx (replay_run ctx' rid s)"
  "current_known ctx s \<Longrightarrow> current_known ctx (gui_run ctx' job s)"
  "current_known ctx s \<Longrightarrow> current_known ctx (OnLogfileLoaded s)"
  by (simp_all add: current_known_def replay_run_def gui_run_def usage_callback_eq
        OnLogfileLoaded_def)

text \<open>
  C10. Let the stored current id be null or catalogued, as every entry point leaves it.
  For every id with no description, Inspect(id) leaves the stored current id null, not
  id. If id is not null, the first call queues a usage query for id, and a second
  Inspect(id) passes the guard again: it is not a no-op, it clears the views, sets the
  name and queues a second usage query for id.
\<close>

theorem inspect_absent_twice:
  assumes "GetResource ctx rid = None" and "current_known ctx s"
  shows "\<exists>s1. Inspect ctx rid s = Inr s1 \<and> m_Resource s1 = ResourceId_null
           \<and> (rid \<noteq> ResourceId_null \<longrightarrow>
                (\<exists>s2. Inspect ctx rid s1 = Inr s2 \<and> s2 \<noteq> s1
                   \<and> replayQueue s1 = replayQueue s @ [rid]
                   \<and> replayQueue s2 = replayQueue s @ [rid, rid]
                   \<and> items (resourceUsage s2) = []
                   \<and> resourceName s2 = ''No Resource Selected''
                   \<and> m_Resource s2 = ResourceId_null))"
proof (cases "rid = ResourceId_null")
  case True
  show ?thesis
  proof (cases "m_Resource s = rid")
    case same: True
    then show ?thesis using True by (simp add: Inspect_same)
  next
    case False
    then show ?thesis
      using True Inspect_fresh [OF False, of ctx] by auto
  qed
next
  case False
  have ne: "m_Resource s \<noteq> rid"
    using assms False by (auto simp: current_known_def)
  obtain s1 where s1: "Inspect ctx rid s = Inr s1" "m_Resource s1 = ResourceId_null"
      "replayQueue s1 = replayQueue s @ [rid]"
    using Inspect_fresh [OF ne, of ctx] assms(1) by auto
  have ne1: "m_Resource s1 \<noteq> rid" using s1(2) False by simp
  obtain s2 where s2: "Inspect ctx rid s1 = Inr s2" "replayQueue s2 = replayQueue s1 @ [rid]"
      "items (resourceUsage s2) = []" "resourceName s2 = ''No Resource Selected''"
      "m_Resource s2 = ResourceId_null"
    using Inspect_missing_eq [OF assms(1) ne1] by (simp add: clear_def)
  have "s2 \<noteq> s1" using s2(2) by auto
  then show ?thesis using s1 s2 by auto
qed

theorem inspect_absent_twice_witness:
  "GetResource sample_ctx (ResourceId 5) = None
   \<and> current_known sample_ctx (constructed :: sample_usage ResourceInspector)
   \<and> ResourceId 5 \<noteq> ResourceId_null
   \<and> (\<exists>s1 s2. Inspect sample_ctx (ResourceId 5) constructed = Inr s1
         \<and> m_Resource s1 = ResourceId_null
         \<and> Inspect sample_ctx (ResourceId 5) s1 = Inr s2
         \<and> replayQueue s2 = [ResourceId 5, ResourceId 5])"
proof -
  have k: "current_known sample_ctx (constructed :: sample_usage ResourceInspector)"
    by (rule current_known_constructed)
  have q: "replayQueue (constructed :: sample_usage ResourceInspector) = []"
    by (simp add: constructed_def)
  have n: "ResourceId 5 \<noteq> ResourceId_null" by simp
  from inspect_absent_twice [OF GetResource_sample(3) k] n q
  have "\<exists>s1 s2. Inspect sample_ctx (ResourceId 5) constructed = Inr s1
         \<and> m_Resource s1 = ResourceId_null
         \<and> Inspect sample_ctx (ResourceId 5) s1 = Inr s2
         \<and> replayQueue s2 = [ResourceId 5, ResourceId 5]"
    by (metis append_Nil)
  then show ?thesis using GetResource_sample(3) k n by blast
qed

end
